theory Spec2Isabelle
  imports Main "HOL-Library.Sublist"
begin

section \<open>Python values, exceptions and text helpers\<close>

text \<open>
  The server \<^verbatim>\<open>ghidra_mcp_server.py\<close> receives a tool name and an argument
  dictionary decoded from JSON.  Argument values are modelled by \<open>pyval\<close>; Python
  \<^verbatim>\<open>str\<close> values are \<open>string\<close>, with characters read as code points below 256.
\<close>

datatype pyval = PStr string | PInt int | PBool bool | PNone

text \<open>
  Exceptions derived from \<^verbatim>\<open>Exception\<close>, the ones that \<^verbatim>\<open>except Exception\<close> in
  \<^verbatim>\<open>call_tool\<close> catches; interrupts such as \<^verbatim>\<open>KeyboardInterrupt\<close> are outside the
  model.  Every constructor but \<open>KeyError\<close> carries the text that \<^verbatim>\<open>str(e)\<close> gives;
  \<open>KeyError\<close> carries the missing key, and its text is the key in single quotes (the
  only key that the server looks up with \<^verbatim>\<open>arguments[...]\<close> is \<^verbatim>\<open>file_path\<close>).
  \<open>OSError\<close> stands for the operating-system errors other than \<^verbatim>\<open>FileNotFoundError\<close>
  and carries its \<^verbatim>\<open>errno\<close> as well.
\<close>

datatype exn =
    KeyError string
  | TypeError string
  | UnboundLocalError string
  | CalledProcessError string
  | FileNotFoundError string
  | OSError nat string
  | ValueError string
  | OtherException string

fun str_exc :: "exn \<Rightarrow> string" where
  "str_exc (KeyError k) = [CHR 0x27] @ k @ [CHR 0x27]"
| "str_exc (TypeError m) = m"
| "str_exc (UnboundLocalError m) = m"
| "str_exc (CalledProcessError m) = m"
| "str_exc (FileNotFoundError m) = m"
| "str_exc (OSError n m) = m"
| "str_exc (ValueError m) = m"
| "str_exc (OtherException m) = m"

abbreviation NL :: string where
  "NL \<equiv> ''\<newline>''"

abbreviation SQ :: string where
  "SQ \<equiv> [CHR 0x27]"

fun isCalledProcessError :: "exn \<Rightarrow> bool" where
  "isCalledProcessError (CalledProcessError m) = True"
| "isCalledProcessError e = False"

fun isFileNotFoundError :: "exn \<Rightarrow> bool" where
  "isFileNotFoundError (FileNotFoundError m) = True"
| "isFileNotFoundError e = False"

fun isValueError :: "exn \<Rightarrow> bool" where
  "isValueError (ValueError m) = True"
| "isValueError e = False"

text \<open>
  \<^verbatim>\<open>e.errno\<close> of an operating-system error (Linux numbering); a
  \<^verbatim>\<open>FileNotFoundError\<close> is the error \<^verbatim>\<open>ENOENT\<close>.
\<close>

definition ENOENT :: nat where "ENOENT = 2"
definition EBADF :: nat where "EBADF = 9"
definition ENOTDIR :: nat where "ENOTDIR = 20"
definition ELOOP :: nat where "ELOOP = 40"

fun errno :: "exn \<Rightarrow> nat option" where
  "errno (FileNotFoundError m) = Some ENOENT"
| "errno (OSError n m) = Some n"
| "errno e = None"

text \<open>\<^verbatim>\<open>s.split(sep)\<close> for a one-character separator: never the empty list.\<close>

fun split_on :: "char \<Rightarrow> string \<Rightarrow> string list" where
  "split_on sep [] = [[]]"
| "split_on sep (c # cs) =
     (if c = sep then [] # split_on sep cs
      else (let r = split_on sep cs in (c # hd r) # tl r))"

text \<open>\<^verbatim>\<open>sep.join(xs)\<close>.\<close>

fun join :: "string \<Rightarrow> string list \<Rightarrow> string" where
  "join sep [] = []"
| "join sep [x] = x"
| "join sep (x # y # ys) = x @ sep @ join sep (y # ys)"

text \<open>\<^verbatim>\<open>str.isspace\<close> on the code points below 256, and \<^verbatim>\<open>s.strip()\<close>.\<close>

definition isspace :: "char \<Rightarrow> bool" where
  "isspace c = ((of_char c :: nat) \<in> set [9, 10, 11, 12, 13, 28, 29, 30, 31, 32, 133, 160])"

definition strip :: "string \<Rightarrow> string" where
  "strip s = rev (dropWhile isspace (rev (dropWhile isspace s)))"

text \<open>Decimal and octal rendering of integers: \<^verbatim>\<open>str(n)\<close> and \<^verbatim>\<open>oct(n)\<close>.\<close>

definition digit_char :: "nat \<Rightarrow> char" where
  "digit_char d = ''0123456789'' ! d"

function str_nat :: "nat \<Rightarrow> string" where
  "str_nat n = (if n < 10 then [digit_char n] else str_nat (n div 10) @ [digit_char (n mod 10)])"
  by pat_completeness auto
termination
  by (relation "measure (\<lambda>n. n)") auto

declare str_nat.simps [simp del]

definition str_int :: "int \<Rightarrow> string" where
  "str_int i = (if i < 0 then ''-'' @ str_nat (nat (- i)) else str_nat (nat i))"

function oct_digits :: "nat \<Rightarrow> string" where
  "oct_digits n = (if n < 8 then [digit_char n] else oct_digits (n div 8) @ [digit_char (n mod 8)])"
  by pat_completeness auto
termination
  by (relation "measure (\<lambda>n. n)") auto

declare oct_digits.simps [simp del]

definition oct :: "nat \<Rightarrow> string" where
  "oct n = ''0o'' @ oct_digits n"

text \<open>\<^verbatim>\<open>s[-3:]\<close>.\<close>

definition last3 :: "string \<Rightarrow> string" where
  "last3 s = drop (length s - 3) s"

text \<open>\<^verbatim>\<open>f"{n:,}"\<close>: decimal digits in groups of three, counted from the right.\<close>

fun group3 :: "string \<Rightarrow> string" where
  "group3 (a # b # c # d # ds) = a # b # c # CHR '','' # group3 (d # ds)"
| "group3 ds = ds"

definition fmt_commas :: "nat \<Rightarrow> string" where
  "fmt_commas n = rev (group3 (rev (str_nat n)))"

text \<open>\<^verbatim>\<open>str(v)\<close>, as used by f-strings and by \<^verbatim>\<open>str(min_length)\<close>.\<close>

fun py_str :: "pyval \<Rightarrow> string" where
  "py_str (PStr s) = s"
| "py_str (PInt i) = str_int i"
| "py_str (PBool b) = (if b then ''True'' else ''False'')"
| "py_str PNone = ''None''"

fun type_name :: "pyval \<Rightarrow> string" where
  "type_name (PStr s) = ''str''"
| "type_name (PInt i) = ''int''"
| "type_name (PBool b) = ''bool''"
| "type_name PNone = ''NoneType''"

section \<open>Paths\<close>

text \<open>
  \<^verbatim>\<open>pathlib.Path\<close> on a POSIX system: a root (empty, one slash, or two slashes when
  the string starts with exactly two) and the components that are neither empty nor a
  single dot.
\<close>

record PurePath =
  root :: string
  parts :: "string list"

definition splitroot :: "string \<Rightarrow> string \<times> string" where
  "splitroot p =
     (if take 1 p \<noteq> ''/'' then ([], p)
      else if take 1 (drop 1 p) = ''/'' \<and> take 1 (drop 2 p) \<noteq> ''/'' then (take 2 p, drop 2 p)
      else (''/'', drop 1 p))"

definition parse_path :: "string \<Rightarrow> PurePath" where
  "parse_path p =
     (case splitroot p of
        (r, rel) \<Rightarrow> \<lparr>root = r, parts = filter (\<lambda>x. x \<noteq> [] \<and> x \<noteq> ''.'') (split_on CHR ''/'' rel)\<rparr>)"

text \<open>\<^verbatim>\<open>Path(v)\<close> raises \<^verbatim>\<open>TypeError\<close> on a value that is not a string (wording of CPython 3.12).\<close>

definition Path :: "pyval \<Rightarrow> exn + PurePath" where
  "Path v =
     (case v of
        PStr s \<Rightarrow> Inr (parse_path s)
      | _ \<Rightarrow> Inl (TypeError
          (''argument should be a str or an os.PathLike object where __fspath__ returns a str, not ''
            @ SQ @ type_name v @ SQ)))"

text \<open>\<^verbatim>\<open>str(path)\<close> and \<^verbatim>\<open>path.name\<close>.\<close>

definition path_str :: "PurePath \<Rightarrow> string" where
  "path_str path =
     (let s = root path @ join ''/'' (parts path) in if s = [] then ''.'' else s)"

definition path_name :: "PurePath \<Rightarrow> string" where
  "path_name path = (if parts path = [] then [] else last (parts path))"

section \<open>The environment\<close>

text \<open>
  What the handlers observe of the outside world: what the \<^verbatim>\<open>stat\<close> call made by
  \<^verbatim>\<open>path.exists()\<close> gives, what the later \<^verbatim>\<open>path.stat()\<close> gives, and what \<^verbatim>\<open>subprocess.check_output(argv, stderr=STDOUT, text=True)\<close>
  gives for an argument vector, either the captured output or the exception raised.
  The field \<open>format_2f_kb\<close> stands for the floating-point rendering
  \<^verbatim>\<open>f"{st_size / 1024:.2f}"\<close>, which is not computed here.
\<close>

record stat_result =
  st_size :: nat
  st_mode :: nat

record env =
  exists_stat :: "string \<Rightarrow> exn + stat_result"
  path_stat :: "string \<Rightarrow> exn + stat_result"
  check_output :: "string list \<Rightarrow> exn + string"
  format_2f_kb :: "nat \<Rightarrow> string"

text \<open>
  \<^verbatim>\<open>path.exists()\<close> as \<^verbatim>\<open>pathlib\<close> defines it (CPython 3.11): the path exists when
  \<^verbatim>\<open>stat\<close> succeeds; an operating-system error whose \<^verbatim>\<open>errno\<close> is \<^verbatim>\<open>ENOENT\<close>,
  \<^verbatim>\<open>ENOTDIR\<close>, \<^verbatim>\<open>EBADF\<close> or \<^verbatim>\<open>ELOOP\<close>, and a \<^verbatim>\<open>ValueError\<close>, mean that it
  does not; every other exception of \<^verbatim>\<open>stat\<close> is raised again.
\<close>

definition ignore_error :: "exn \<Rightarrow> bool" where
  "ignore_error e = (errno e \<in> set [Some ENOENT, Some ENOTDIR, Some EBADF, Some ELOOP])"

definition path_exists :: "env \<Rightarrow> string \<Rightarrow> exn + bool" where
  "path_exists env p =
     (case exists_stat env p of
        Inr stat \<Rightarrow> Inr True
      | Inl e \<Rightarrow>
          if ignore_error e then Inr False
          else if isValueError e then Inr False
          else Inl e)"

text \<open>
  A handler's outcome: the returned text or the exception that escapes it, together with
  the argument vectors of the external commands it ran, in order.
\<close>

type_synonym outcome = "(exn + string) \<times> string list list"

record TextContent =
  "type" :: string
  "text" :: string

text \<open>\<^verbatim>\<open>TextContent(type="text", text=s)\<close>.\<close>

definition mk_text :: "string \<Rightarrow> TextContent" where
  "mk_text s = \<lparr>type = ''text'', text = s\<rparr>"

section \<open>The four handlers\<close>

text \<open>
  \<^verbatim>\<open>analyze_binary\<close>.  When the \<^verbatim>\<open>file\<close> probe raises \<^verbatim>\<open>CalledProcessError\<close>, the
  handler appends the line "Could not determine file type: ..." to \<^verbatim>\<open>results\<close> and goes
  on to test \<^verbatim>\<open>"ELF" in file_output\<close>, but \<^verbatim>\<open>file_output\<close> was never bound, so
  \<^verbatim>\<open>UnboundLocalError\<close> is raised there (wording of CPython 3.12) and \<^verbatim>\<open>results\<close> is lost.
\<close>

definition unbound_file_output :: exn where
  "unbound_file_output = UnboundLocalError
     (''cannot access local variable '' @ SQ @ ''file_output'' @ SQ
        @ '' where it is not associated with a value'')"

definition analyze_binary :: "env \<Rightarrow> pyval \<Rightarrow> outcome" where
  "analyze_binary env file_path =
     (case Path file_path of
        Inl e \<Rightarrow> (Inl e, [])
      | Inr path \<Rightarrow>
          (case path_exists env (path_str path) of
             Inl e \<Rightarrow> (Inl e, [])
           | Inr found \<Rightarrow>
               if \<not> found
               then (Inr (''Error: File not found: '' @ py_str file_path), [])
               else
            (case path_stat env (path_str path) of
               Inl e \<Rightarrow> (Inl e, [])
             | Inr stat \<Rightarrow>
                 let results =
                       [''=== Binary Analysis: '' @ path_name path @ '' ==='' @ NL,
                        ''File Size: '' @ fmt_commas (st_size stat) @ '' bytes (''
                          @ format_2f_kb env (st_size stat) @ '' KB)'',
                        ''Permissions: '' @ last3 (oct (st_mode stat))];
                     file_cmd = [''file'', path_str path]
                 in
                   (case check_output env file_cmd of
                      Inl e \<Rightarrow>
                        if isCalledProcessError e then (Inl unbound_file_output, [file_cmd])
                        else (Inl e, [file_cmd])
                    | Inr file_output \<Rightarrow>
                        let results = results @ [NL @ ''File Type:'' @ NL @ strip file_output] in
                        if sublist ''ELF'' file_output
                        then
                          (let readelf_cmd = [''readelf'', ''-h'', path_str path] in
                           case check_output env readelf_cmd of
                             Inr readelf_output \<Rightarrow>
                               (Inr (join NL (results @ [NL @ ''ELF Header:'' @ NL @ readelf_output])),
                                [file_cmd, readelf_cmd])
                           | Inl e \<Rightarrow>
                               if isCalledProcessError e \<or> isFileNotFoundError e
                               then (Inr (join NL (results @
                                       [NL @ ''(readelf not available for detailed ELF analysis)''])),
                                     [file_cmd, readelf_cmd])
                               else (Inl e, [file_cmd, readelf_cmd]))
                        else (Inr (join NL results), [file_cmd])))))"

text \<open>\<^verbatim>\<open>extract_strings\<close>.\<close>

definition extract_strings :: "env \<Rightarrow> pyval \<Rightarrow> pyval \<Rightarrow> outcome" where
  "extract_strings env file_path min_length =
     (case Path file_path of
        Inl e \<Rightarrow> (Inl e, [])
      | Inr path \<Rightarrow>
          (case path_exists env (path_str path) of
             Inl e \<Rightarrow> (Inl e, [])
           | Inr found \<Rightarrow>
               if \<not> found
               then (Inr (''Error: File not found: '' @ py_str file_path), [])
               else
            (let strings_cmd = [''strings'', ''-n'', py_str min_length, path_str path] in
             case check_output env strings_cmd of
               Inr strings_output \<Rightarrow>
                 let lines = split_on CHR ''\<newline>'' (strip strings_output) in
                 (Inr (if length lines > 100
                       then ''=== Strings Extracted (showing first 100 of '' @ str_nat (length lines)
                              @ '') ==='' @ NL @ NL
                              @ join NL (take 100 lines)
                              @ NL @ NL @ ''... and '' @ str_nat (length lines - 100) @ '' more strings''
                       else ''=== Strings Extracted ('' @ str_nat (length lines) @ '' total) ==='' @ NL @ NL
                              @ join NL lines),
                  [strings_cmd])
             | Inl e \<Rightarrow>
                 if isCalledProcessError e
                 then (Inr (''Error extracting strings: '' @ str_exc e), [strings_cmd])
                 else if isFileNotFoundError e
                 then (Inr (''Error: '' @ SQ @ ''strings'' @ SQ
                              @ '' command not found. Install binutils package.''),
                       [strings_cmd])
                 else (Inl e, [strings_cmd]))))"

text \<open>\<^verbatim>\<open>get_file_info\<close>.\<close>

definition get_file_info :: "env \<Rightarrow> pyval \<Rightarrow> outcome" where
  "get_file_info env file_path =
     (case Path file_path of
        Inl e \<Rightarrow> (Inl e, [])
      | Inr path \<Rightarrow>
          (case path_exists env (path_str path) of
             Inl e \<Rightarrow> (Inl e, [])
           | Inr found \<Rightarrow>
               if \<not> found
               then (Inr (''Error: File not found: '' @ py_str file_path), [])
               else
            (let file_cmd = [''file'', ''-b'', path_str path] in
             case check_output env file_cmd of
               Inr output \<Rightarrow> (Inr (''File Info: '' @ strip output), [file_cmd])
             | Inl e \<Rightarrow>
                 if isCalledProcessError e then (Inr (''Error: '' @ str_exc e), [file_cmd])
                 else (Inl e, [file_cmd]))))"

text \<open>
  \<^verbatim>\<open>check_security\<close>: first the combined checker, whose absence alone
  (\<^verbatim>\<open>FileNotFoundError\<close>) leads to the three manual probes.
\<close>

definition enabled_str :: "bool \<Rightarrow> string" where
  "enabled_str b = (if b then ''Enabled'' else ''Disabled'')"

definition install_note :: string where
  "install_note = NL @ ''Note: Install '' @ SQ @ ''checksec'' @ SQ @ '' or '' @ SQ @ ''readelf'' @ SQ
     @ '' for detailed security analysis''"

definition manual_checks :: "env \<Rightarrow> PurePath \<Rightarrow> string list \<Rightarrow> string list list \<Rightarrow> outcome" where
  "manual_checks env path results cmds =
     (let wx_cmd = [''readelf'', ''-l'', path_str path];
          h_cmd = [''readelf'', ''-h'', path_str path];
          nm_cmd = [''nm'', path_str path];
          handler = (\<lambda>e results cmds.
             if isCalledProcessError e \<or> isFileNotFoundError e
             then (Inr (join NL (results @ [install_note])), cmds)
             else (Inl e, cmds))
      in
        case check_output env wx_cmd of
          Inl e \<Rightarrow> handler e results (cmds @ [wx_cmd])
        | Inr readelf_wx \<Rightarrow>
            let nx_enabled = (sublist ''GNU_STACK'' readelf_wx \<and> sublist ''RW'' readelf_wx);
                results = results @ [''NX (No Execute): '' @ enabled_str nx_enabled]
            in
              (case check_output env h_cmd of
                 Inl e \<Rightarrow> handler e results (cmds @ [wx_cmd, h_cmd])
               | Inr readelf_h \<Rightarrow>
                   let pie_enabled = (sublist ''DYN (Shared object file)'' readelf_h
                          \<or> sublist ''DYN (Position-Independent Executable file)'' readelf_h);
                       results = results @ [''PIE: '' @ enabled_str pie_enabled]
                   in
                     (case check_output env nm_cmd of
                        Inl e \<Rightarrow> handler e results (cmds @ [wx_cmd, h_cmd, nm_cmd])
                      | Inr symbols \<Rightarrow>
                          let canary_enabled = sublist ''__stack_chk_fail'' symbols;
                              results = results @ [''Stack Canary: '' @ enabled_str canary_enabled]
                          in (Inr (join NL results), cmds @ [wx_cmd, h_cmd, nm_cmd]))))"

definition check_security :: "env \<Rightarrow> pyval \<Rightarrow> outcome" where
  "check_security env file_path =
     (case Path file_path of
        Inl e \<Rightarrow> (Inl e, [])
      | Inr path \<Rightarrow>
          (case path_exists env (path_str path) of
             Inl e \<Rightarrow> (Inl e, [])
           | Inr found \<Rightarrow>
               if \<not> found
               then (Inr (''Error: File not found: '' @ py_str file_path), [])
               else
            (let results = [''=== Security Features: '' @ path_name path @ '' ==='' @ NL];
                 checksec_cmd = [''checksec'', ''--file='' @ path_str path]
             in
               case check_output env checksec_cmd of
                 Inr checksec_output \<Rightarrow> (Inr (join NL (results @ [checksec_output])), [checksec_cmd])
               | Inl e \<Rightarrow>
                   if isFileNotFoundError e then manual_checks env path results [checksec_cmd]
                   else (Inl e, [checksec_cmd]))))"

section \<open>The capability registry and the dispatcher\<close>

datatype json =
    JString string
  | JInt int
  | JArray "json list"
  | JObject "(string \<times> json) list"

record Tool =
  name :: string
  description :: string
  inputSchema :: json

definition list_tools :: "Tool list" where
  "list_tools =
     [\<lparr>name = ''analyze_binary'',
       description = ''Analyze a binary file and get basic information (file type, size, architecture)'',
       inputSchema = JObject
         [(''type'', JString ''object''),
          (''properties'', JObject
             [(''file_path'', JObject
                 [(''type'', JString ''string''),
                  (''description'', JString ''Path to the binary file to analyze'')])]),
          (''required'', JArray [JString ''file_path''])]\<rparr>,
      \<lparr>name = ''extract_strings'',
       description = ''Extract readable strings from a binary file'',
       inputSchema = JObject
         [(''type'', JString ''object''),
          (''properties'', JObject
             [(''file_path'', JObject
                 [(''type'', JString ''string''),
                  (''description'', JString ''Path to the binary file'')]),
              (''min_length'', JObject
                 [(''type'', JString ''integer''),
                  (''description'', JString ''Minimum string length (default: 4)''),
                  (''default'', JInt 4)])]),
          (''required'', JArray [JString ''file_path''])]\<rparr>,
      \<lparr>name = ''get_file_info'',
       description = ''Get detailed file information using '' @ SQ @ ''file'' @ SQ @ '' command'',
       inputSchema = JObject
         [(''type'', JString ''object''),
          (''properties'', JObject
             [(''file_path'', JObject
                 [(''type'', JString ''string''),
                  (''description'', JString ''Path to the file'')])]),
          (''required'', JArray [JString ''file_path''])]\<rparr>,
      \<lparr>name = ''check_security'',
       description = ''Check binary security features (NX, PIE, Stack Canary, RELRO)'',
       inputSchema = JObject
         [(''type'', JString ''object''),
          (''properties'', JObject
             [(''file_path'', JObject
                 [(''type'', JString ''string''),
                  (''description'', JString ''Path to the binary file'')])]),
          (''required'', JArray [JString ''file_path''])]\<rparr>]"

text \<open>Reading a schema: the value under a key of a JSON object, and the keys of an object.\<close>

fun jget :: "json \<Rightarrow> string \<Rightarrow> json option" where
  "jget (JObject kvs) k = map_of kvs k"
| "jget j k = None"

fun jkeys :: "json \<Rightarrow> string list" where
  "jkeys (JObject kvs) = map fst kvs"
| "jkeys j = []"

definition required_args :: "Tool \<Rightarrow> json option" where
  "required_args t = jget (inputSchema t) ''required''"

definition declared_args :: "Tool \<Rightarrow> string list" where
  "declared_args t = (case jget (inputSchema t) ''properties'' of Some ps \<Rightarrow> jkeys ps | None \<Rightarrow> [])"

definition arg_schema :: "Tool \<Rightarrow> string \<Rightarrow> json option" where
  "arg_schema t a = (case jget (inputSchema t) ''properties'' of Some ps \<Rightarrow> jget ps a | None \<Rightarrow> None)"

text \<open>\<^verbatim>\<open>arguments[k]\<close> and \<^verbatim>\<open>arguments.get(k, default)\<close> on the argument dictionary.\<close>

definition getitem :: "(string \<rightharpoonup> pyval) \<Rightarrow> string \<Rightarrow> exn + pyval" where
  "getitem arguments k = (case arguments k of None \<Rightarrow> Inl (KeyError k) | Some v \<Rightarrow> Inr v)"

definition get_default :: "(string \<rightharpoonup> pyval) \<Rightarrow> string \<Rightarrow> pyval \<Rightarrow> pyval" where
  "get_default arguments k d = (case arguments k of None \<Rightarrow> d | Some v \<Rightarrow> v)"

text \<open>The body of the \<^verbatim>\<open>try\<close> block of \<^verbatim>\<open>call_tool\<close>, up to the value of \<^verbatim>\<open>result\<close>.\<close>

definition call_tool_try :: "env \<Rightarrow> string \<Rightarrow> (string \<rightharpoonup> pyval) \<Rightarrow> outcome" where
  "call_tool_try env tool arguments =
     (if tool = ''analyze_binary'' then
        (case getitem arguments ''file_path'' of
           Inl e \<Rightarrow> (Inl e, [])
         | Inr file_path \<Rightarrow> analyze_binary env file_path)
      else if tool = ''extract_strings'' then
        (let min_len = get_default arguments ''min_length'' (PInt 4) in
         case getitem arguments ''file_path'' of
           Inl e \<Rightarrow> (Inl e, [])
         | Inr file_path \<Rightarrow> extract_strings env file_path min_len)
      else if tool = ''get_file_info'' then
        (case getitem arguments ''file_path'' of
           Inl e \<Rightarrow> (Inl e, [])
         | Inr file_path \<Rightarrow> get_file_info env file_path)
      else if tool = ''check_security'' then
        (case getitem arguments ''file_path'' of
           Inl e \<Rightarrow> (Inl e, [])
         | Inr file_path \<Rightarrow> check_security env file_path)
      else (Inr (''Unknown tool: '' @ tool), []))"

text \<open>
  \<^verbatim>\<open>call_tool\<close>: the result is wrapped in one text block; an exception of the
  \<^verbatim>\<open>try\<close> block is caught and reported in one text block.  The left summand of the
  result type is an exception escaping \<^verbatim>\<open>call_tool\<close> itself.
\<close>

definition call_tool :: "env \<Rightarrow> string \<Rightarrow> (string \<rightharpoonup> pyval) \<Rightarrow> (exn + TextContent list) \<times> string list list" where
  "call_tool env tool arguments =
     (case call_tool_try env tool arguments of
        (Inr result, cmds) \<Rightarrow> (Inr [mk_text result], cmds)
      | (Inl e, cmds) \<Rightarrow>
          (Inr [mk_text (''Error executing '' @ tool @ '': '' @ str_exc e)], cmds))"

section \<open>What the strings tool prints\<close>

text \<open>The output of \<^verbatim>\<open>strings\<close> for a list of extracted strings: each on a line of its own.\<close>

definition printed_lines :: "string list \<Rightarrow> string" where
  "printed_lines ls = concat (map (\<lambda>l. l @ NL) ls)"

section \<open>Sample environments\<close>

text \<open>
  A machine with the one file \<^verbatim>\<open>/bin/ls\<close>, and a table of the commands that answer;
  a command outside the table is not installed.
\<close>

definition not_installed :: "string list \<Rightarrow> exn" where
  "not_installed argv = FileNotFoundError
     (''[Errno 2] No such file or directory: '' @ SQ @ (case argv of [] \<Rightarrow> [] | a # as \<Rightarrow> a) @ SQ)"

definition table_output :: "(string list \<times> (exn + string)) list \<Rightarrow> string list \<Rightarrow> exn + string" where
  "table_output tbl argv = (case map_of tbl argv of Some r \<Rightarrow> r | None \<Rightarrow> Inl (not_installed argv))"

definition no_such_file :: "string \<Rightarrow> exn" where
  "no_such_file p = FileNotFoundError (''[Errno 2] No such file or directory: '' @ SQ @ p @ SQ)"

definition sample_env :: "(string list \<times> (exn + string)) list \<Rightarrow> env" where
  "sample_env tbl =
     \<lparr>exists_stat = (\<lambda>p. if p = ''/bin/ls'' then Inr \<lparr>st_size = 142144, st_mode = 33261\<rparr>
                           else Inl (no_such_file p)),
      path_stat = (\<lambda>p. Inr \<lparr>st_size = 142144, st_mode = 33261\<rparr>),
      check_output = table_output tbl,
      format_2f_kb = (\<lambda>n. ''138.81'')\<rparr>"




text \<open>
  The text of a \<^verbatim>\<open>CalledProcessError\<close> for exit status 1; the command is shown as
  Python shows a list of plain strings.
\<close>

definition repr_list :: "string list \<Rightarrow> string" where
  "repr_list argv = ''['' @ join '', '' (map (\<lambda>a. SQ @ a @ SQ) argv) @ '']''"

definition exit_status_1 :: "string list \<Rightarrow> exn" where
  "exit_status_1 argv = CalledProcessError
     (''Command '' @ SQ @ repr_list argv @ SQ @ '' returned non-zero exit status 1.'')"

section \<open>Auxiliary facts\<close>

lemma Path_PStr [simp]: "Path (PStr s) = Inr (parse_path s)"
  by (simp add: Path_def)

lemma join_Cons: "join sep (x # xs) = x @ (if xs = [] then [] else sep @ join sep xs)"
  by (cases xs) simp_all

lemma call_tool_cases:
  "call_tool env tool arguments =
     (case fst (call_tool_try env tool arguments) of
        Inr result \<Rightarrow> Inr [mk_text result]
      | Inl e \<Rightarrow> Inr [mk_text (''Error executing '' @ tool @ '': '' @ str_exc e)],
      snd (call_tool_try env tool arguments))"
  by (cases "call_tool_try env tool arguments") (auto simp: call_tool_def split: sum.splits)

lemma missing_file_path:
  assumes "tool \<in> {''analyze_binary'', ''extract_strings'', ''get_file_info'', ''check_security''}"
    and "arguments ''file_path'' = None"
  shows "call_tool_try env tool arguments = (Inl (KeyError ''file_path''), [])"
  using assms by (auto simp: call_tool_try_def getitem_def)

text \<open>No handler returns a text that starts with the letter U.\<close>

lemma analyze_binary_not_U: "fst (analyze_binary env fp) \<noteq> Inr (CHR ''U'' # rest)"
  by (simp add: analyze_binary_def join_Cons Let_def split: sum.splits)

lemma extract_strings_not_U: "fst (extract_strings env fp m) \<noteq> Inr (CHR ''U'' # rest)"
  by (simp add: extract_strings_def Let_def split: sum.splits)

lemma get_file_info_not_U: "fst (get_file_info env fp) \<noteq> Inr (CHR ''U'' # rest)"
  by (simp add: get_file_info_def Let_def split: sum.splits)

lemma manual_checks_not_U:
  "fst (manual_checks env path ((CHR ''='' # h) # rs) cmds) \<noteq> Inr (CHR ''U'' # rest)"
  by (simp add: manual_checks_def join_Cons Let_def split: sum.splits)

lemma check_security_not_U: "fst (check_security env fp) \<noteq> Inr (CHR ''U'' # rest)"
  by (simp add: check_security_def join_Cons Let_def manual_checks_not_U split: sum.splits)

lemma known_tool_not_unknown:
  assumes "tool \<in> {''analyze_binary'', ''extract_strings'', ''get_file_info'', ''check_security''}"
  shows "fst (call_tool_try env tool arguments) \<noteq> Inr (''Unknown tool: '' @ tool)"
  using assms analyze_binary_not_U extract_strings_not_U get_file_info_not_U check_security_not_U
  by (auto simp: call_tool_try_def getitem_def Let_def split: option.splits)

text \<open>The sample machine.\<close>

lemma bin_ls_str: "path_str (parse_path ''/bin/ls'') = ''/bin/ls''"
  by (simp add: path_str_def parse_path_def splitroot_def)

lemma bin_ls_name: "path_name (parse_path ''/bin/ls'') = ''ls''"
  by (simp add: path_name_def parse_path_def splitroot_def)


lemma sample_env_sel [simp]:
  "path_exists (sample_env tbl) p = Inr (p = ''/bin/ls'')"
  "path_stat (sample_env tbl) p = Inr \<lparr>st_size = 142144, st_mode = 33261\<rparr>"
  "check_output (sample_env tbl) argv = table_output tbl argv"
  "format_2f_kb (sample_env tbl) n = ''138.81''"
  by (simp_all add: sample_env_def path_exists_def no_such_file_def ignore_error_def)

text \<open>
  Reading back what \<^verbatim>\<open>strings\<close> printed.  When at least one string was printed, the
  first does not start and the last does not end with white space, the lines that
  \<^verbatim>\<open>extract_strings\<close> counts and lists are the printed strings.
\<close>

lemma split_on_no_sep: "sep \<notin> set l \<Longrightarrow> split_on sep l = [l]"
  by (induction l) (auto simp: Let_def)

lemma split_on_append_sep:
  "sep \<notin> set l \<Longrightarrow> split_on sep (l @ sep # rest) = l # split_on sep rest"
  by (induction l) (auto simp: Let_def)

lemma split_on_join:
  assumes "ls \<noteq> []" and "\<forall>l\<in>set ls. sep \<notin> set l"
  shows "split_on sep (join [sep] ls) = ls"
  using assms
proof (induction "[sep]" ls rule: join.induct)
  case 1
  then show ?case by simp
next
  case (2 x)
  then show ?case by (simp add: split_on_no_sep)
next
  case (3 x y ys)
  then show ?case by (simp add: split_on_append_sep)
qed

lemma printed_lines_join: "ls \<noteq> [] \<Longrightarrow> printed_lines ls = join NL ls @ NL"
  by (induction NL ls rule: join.induct) (simp_all add: printed_lines_def)

lemma hd_join: "ls \<noteq> [] \<Longrightarrow> hd ls \<noteq> [] \<Longrightarrow> hd (join sep ls) = hd (hd ls)"
  by (cases ls) (simp_all add: join_Cons)

lemma join_Nil_iff: "ls \<noteq> [] \<Longrightarrow> last ls \<noteq> [] \<Longrightarrow> join sep ls \<noteq> []"
  by (induction sep ls rule: join.induct) simp_all

lemma last_join: "ls \<noteq> [] \<Longrightarrow> last ls \<noteq> [] \<Longrightarrow> last (join sep ls) = last (last ls)"
  by (induction sep ls rule: join.induct) (simp_all add: join_Nil_iff)

lemma strip_trailing:
  assumes "s \<noteq> []" and "\<not> isspace (hd s)" and "\<not> isspace (last s)" and "\<forall>c\<in>set w. isspace c"
  shows "strip (s @ w) = s"
proof -
  from assms(1,2) have "dropWhile isspace (s @ w) = s @ w"
    by (cases s) simp_all
  moreover from assms(4) have "dropWhile isspace (rev w @ rev s) = dropWhile isspace (rev s)"
    by (simp add: dropWhile_append)
  moreover from assms(1,3) have "dropWhile isspace (rev s) = rev s"
    by (cases s rule: rev_cases) simp_all
  ultimately show ?thesis by (simp add: strip_def)
qed

lemma isspace_NL: "isspace CHR ''\<newline>''"
  by (simp add: isspace_def)

lemma lines_of_printed:
  assumes "ls \<noteq> []" and "\<forall>l\<in>set ls. CHR ''\<newline>'' \<notin> set l"
    and "hd ls \<noteq> []" and "\<not> isspace (hd (hd ls))"
    and "last ls \<noteq> []" and "\<not> isspace (last (last ls))"
  shows "split_on CHR ''\<newline>'' (strip (printed_lines ls)) = ls"
proof -
  have "strip (join NL ls @ NL) = join NL ls"
    using assms by (intro strip_trailing) (simp_all add: hd_join last_join join_Nil_iff isspace_NL)
  then show ?thesis
    using assms(1,2) by (simp add: printed_lines_join split_on_join)
qed

lemma extract_strings_printed:
  assumes ex: "path_exists env (path_str (parse_path p)) = Inr True"
    and out: "check_output env [''strings'', ''-n'', py_str min_length, path_str (parse_path p)]
                = Inr (printed_lines ls)"
    and ls: "ls \<noteq> []" "\<forall>l\<in>set ls. CHR ''\<newline>'' \<notin> set l"
      "hd ls \<noteq> []" "\<not> isspace (hd (hd ls))" "last ls \<noteq> []" "\<not> isspace (last (last ls))"
  shows "fst (extract_strings env (PStr p) min_length)
     = Inr (if length ls > 100
            then ''=== Strings Extracted (showing first 100 of '' @ str_nat (length ls)
                   @ '') ==='' @ NL @ NL @ join NL (take 100 ls)
                   @ NL @ NL @ ''... and '' @ str_nat (length ls - 100) @ '' more strings''
            else ''=== Strings Extracted ('' @ str_nat (length ls) @ '' total) ==='' @ NL @ NL
                   @ join NL ls)"
  using ex out by (simp add: extract_strings_def lines_of_printed [OF ls])




section \<open>The dispatcher\<close>

text \<open>
  C1.  For every tool name and every argument dictionary, \<^verbatim>\<open>call_tool\<close> returns a
  list of exactly one text block and no exception escapes it.  Whenever the \<^verbatim>\<open>try\<close>
  block raises an exception \<open>e\<close>, the text of the block is "Error executing ", the tool
  name, ": " and \<^verbatim>\<open>str(e)\<close>; in particular a call of one of the four tools without
  \<^verbatim>\<open>file_path\<close> reports the \<^verbatim>\<open>KeyError\<close> in this way, and runs no command.
\<close>

theorem call_tool_one_block:
  "(\<exists>t. fst (call_tool env tool arguments) = Inr [mk_text t])
   \<and> (\<forall>e. fst (call_tool_try env tool arguments) = Inl e \<longrightarrow>
          fst (call_tool env tool arguments)
            = Inr [mk_text (''Error executing '' @ tool @ '': '' @ str_exc e)])
   \<and> (tool \<in> {''analyze_binary'', ''extract_strings'', ''get_file_info'', ''check_security''}
        \<and> arguments ''file_path'' = None \<longrightarrow>
          call_tool env tool arguments
            = (Inr [mk_text
                 (''Error executing '' @ tool @ '': '' @ SQ @ ''file_path'' @ SQ)], []))"
proof (intro conjI allI impI)
  show "\<exists>t. fst (call_tool env tool arguments) = Inr [mk_text t]"
    by (cases "fst (call_tool_try env tool arguments)") (auto simp: call_tool_cases)
next
  fix e assume "fst (call_tool_try env tool arguments) = Inl e"
  then show "fst (call_tool env tool arguments)
      = Inr [mk_text (''Error executing '' @ tool @ '': '' @ str_exc e)]"
    by (simp add: call_tool_cases)
next
  assume a: "tool \<in> {''analyze_binary'', ''extract_strings'', ''get_file_info'', ''check_security''}
        \<and> arguments ''file_path'' = None"
  then have "call_tool_try env tool arguments = (Inl (KeyError ''file_path''), [])"
    by (intro missing_file_path) simp_all
  then show "call_tool env tool arguments
            = (Inr [mk_text
                 (''Error executing '' @ tool @ '': '' @ SQ @ ''file_path'' @ SQ)], [])"
    by (simp add: call_tool_cases)
qed

theorem call_tool_one_block_witness:
  "fst (call_tool_try (sample_env []) ''get_file_info'' Map.empty) = Inl (KeyError ''file_path'')
   \<and> call_tool (sample_env []) ''get_file_info'' Map.empty
       = (Inr [mk_text (''Error executing get_file_info: '' @ SQ @ ''file_path'' @ SQ)], [])"
proof -
  have raised: "fst (call_tool_try (sample_env []) ''get_file_info'' Map.empty)
      = Inl (KeyError ''file_path'')"
    by (simp add: call_tool_try_def getitem_def)
  from call_tool_one_block [of "sample_env []" "''get_file_info''" Map.empty]
  have "call_tool (sample_env []) ''get_file_info'' Map.empty
       = (Inr [mk_text (''Error executing get_file_info: '' @ SQ @ ''file_path'' @ SQ)], [])"
    by simp
  with raised show ?thesis by simp
qed

text \<open>
  C2.  For every name outside the four tool names, \<^verbatim>\<open>call_tool\<close> returns one text
  block whose text is "Unknown tool: " followed by the name; no exception is raised and
  no command is run.
\<close>

theorem unknown_tool:
  assumes "tool \<notin> {''analyze_binary'', ''extract_strings'', ''get_file_info'', ''check_security''}"
  shows "call_tool env tool arguments = (Inr [mk_text (''Unknown tool: '' @ tool)], [])"
  using assms by (simp add: call_tool_cases call_tool_try_def)

theorem unknown_tool_witness:
  "''list_functions'' \<notin> {''analyze_binary'', ''extract_strings'', ''get_file_info'', ''check_security''}
   \<and> call_tool (sample_env []) ''list_functions'' [''file_path'' \<mapsto> PStr ''/bin/ls'']
       = (Inr [mk_text ''Unknown tool: list_functions''], [])"
  using unknown_tool [of "''list_functions''" "sample_env []" "[''file_path'' \<mapsto> PStr ''/bin/ls'']"]
  by simp

section \<open>The handlers\<close>




text \<open>
  C4.  On an existing file for which \<^verbatim>\<open>strings\<close> succeeds and prints nothing (a file
  with no extractable string), \<^verbatim>\<open>extract_strings\<close> reports a total of 1 and lists
  one empty entry: splitting the empty text at newlines gives one empty line.  (For one
  or more printed strings the count and the listing are as in \<open>extract_strings_printed\<close>.)
\<close>

theorem extract_strings_empty_output:
  "call_tool (sample_env [([''strings'', ''-n'', ''4'', ''/bin/ls''], Inr [])]) ''extract_strings''
     [''file_path'' \<mapsto> PStr ''/bin/ls'']
   = (Inr [mk_text (''=== Strings Extracted (1 total) ==='' @ NL @ NL)],
      [[''strings'', ''-n'', ''4'', ''/bin/ls'']])"
  by (simp add: call_tool_cases call_tool_try_def getitem_def get_default_def extract_strings_def
      bin_ls_str table_output_def strip_def str_int_def str_nat.simps digit_char_def)

section \<open>The registry\<close>

text \<open>
  C5.  \<^verbatim>\<open>list_tools\<close> returns four descriptors, named analyze_binary, extract_strings,
  get_file_info and check_security in this order, with distinct names.  Every schema
  requires exactly \<^verbatim>\<open>file_path\<close>; the schema of extract_strings also declares
  \<^verbatim>\<open>min_length\<close>, of type integer, which it does not require, and no other schema
  declares it.  A name is in the registry exactly when the dispatcher does not answer
  "Unknown tool: " and the name.
\<close>

theorem list_tools_registry:
  "map name list_tools = [''analyze_binary'', ''extract_strings'', ''get_file_info'', ''check_security'']
   \<and> distinct (map name list_tools)
   \<and> map required_args list_tools
        = [Some (JArray [JString ''file_path'']), Some (JArray [JString ''file_path'']),
           Some (JArray [JString ''file_path'']), Some (JArray [JString ''file_path''])]
   \<and> map declared_args list_tools
        = [[''file_path''], [''file_path'', ''min_length''], [''file_path''], [''file_path'']]
   \<and> map (\<lambda>t. Option.bind (arg_schema t ''min_length'') (\<lambda>s. jget s ''type'')) list_tools
        = [None, Some (JString ''integer''), None, None]
   \<and> (tool \<in> set (map name list_tools))
        = (fst (call_tool_try env tool arguments) \<noteq> Inr (''Unknown tool: '' @ tool))"
proof -
  have names: "map name list_tools
      = [''analyze_binary'', ''extract_strings'', ''get_file_info'', ''check_security'']"
    by (simp add: list_tools_def)
  have routes: "(tool \<in> set (map name list_tools))
        = (fst (call_tool_try env tool arguments) \<noteq> Inr (''Unknown tool: '' @ tool))"
  proof (cases "tool \<in> {''analyze_binary'', ''extract_strings'', ''get_file_info'', ''check_security''}")
    case True
    then show ?thesis using known_tool_not_unknown [OF True] by (simp add: names)
  next
    case False
    then show ?thesis by (simp add: names call_tool_try_def)
  qed
  have req: "map required_args list_tools
        = [Some (JArray [JString ''file_path'']), Some (JArray [JString ''file_path'']),
           Some (JArray [JString ''file_path'']), Some (JArray [JString ''file_path''])]"
    by (simp add: list_tools_def required_args_def)
  have decl: "map declared_args list_tools
        = [[''file_path''], [''file_path'', ''min_length''], [''file_path''], [''file_path'']]"
    by (simp add: list_tools_def declared_args_def)
  have ml: "map (\<lambda>t. Option.bind (arg_schema t ''min_length'') (\<lambda>s. jget s ''type'')) list_tools
        = [None, Some (JString ''integer''), None, None]"
    by (simp add: list_tools_def arg_schema_def)
  show ?thesis using names routes req decl ml by simp
qed

section \<open>The security check\<close>

text \<open>
  C6.  On an existing file, when \<^verbatim>\<open>checksec\<close> is absent and the three manual probes
  (\<^verbatim>\<open>readelf -l\<close>, \<^verbatim>\<open>readelf -h\<close>, \<^verbatim>\<open>nm\<close>) succeed, \<^verbatim>\<open>check_security\<close> returns the
  header and one line each for NX, PIE and Stack Canary, "Enabled" exactly when the
  substring test on that probe's output holds and "Disabled" otherwise.  When a probe
  is absent or fails with a nonzero status, the handler raises nothing and returns the
  header, the lines obtained so far and the note suggesting installation.
\<close>

theorem check_security_manual:
  fixes env :: env and p :: string
  defines "path \<equiv> parse_path p"
  defines "header \<equiv> ''=== Security Features: '' @ path_name path @ '' ==='' @ NL"
  defines "nx \<equiv> (\<lambda>out. ''NX (No Execute): '' @
             (if sublist ''GNU_STACK'' out \<and> sublist ''RW'' out then ''Enabled'' else ''Disabled''))"
  defines "pie \<equiv> (\<lambda>out. ''PIE: '' @
             (if sublist ''DYN (Shared object file)'' out
                 \<or> sublist ''DYN (Position-Independent Executable file)'' out
              then ''Enabled'' else ''Disabled''))"
  defines "canary \<equiv> (\<lambda>out. ''Stack Canary: '' @
             (if sublist ''__stack_chk_fail'' out then ''Enabled'' else ''Disabled''))"
  assumes ex: "path_exists env (path_str path) = Inr True"
    and checksec: "check_output env [''checksec'', ''--file='' @ path_str path] = Inl (FileNotFoundError m)"
  shows
    "(check_output env [''readelf'', ''-l'', path_str path] = Inr readelf_wx
        \<and> check_output env [''readelf'', ''-h'', path_str path] = Inr readelf_h
        \<and> check_output env [''nm'', path_str path] = Inr symbols
      \<longrightarrow> fst (check_security env (PStr p))
            = Inr (join NL [header, nx readelf_wx, pie readelf_h, canary symbols]))
     \<and> (check_output env [''readelf'', ''-l'', path_str path] = Inl e
        \<and> (isCalledProcessError e \<or> isFileNotFoundError e)
      \<longrightarrow> fst (check_security env (PStr p)) = Inr (join NL [header, install_note]))
     \<and> (check_output env [''readelf'', ''-l'', path_str path] = Inr readelf_wx
        \<and> check_output env [''readelf'', ''-h'', path_str path] = Inl e
        \<and> (isCalledProcessError e \<or> isFileNotFoundError e)
      \<longrightarrow> fst (check_security env (PStr p)) = Inr (join NL [header, nx readelf_wx, install_note]))
     \<and> (check_output env [''readelf'', ''-l'', path_str path] = Inr readelf_wx
        \<and> check_output env [''readelf'', ''-h'', path_str path] = Inr readelf_h
        \<and> check_output env [''nm'', path_str path] = Inl e
        \<and> (isCalledProcessError e \<or> isFileNotFoundError e)
      \<longrightarrow> fst (check_security env (PStr p))
            = Inr (join NL [header, nx readelf_wx, pie readelf_h, install_note]))"
  using ex checksec
  by (simp add: check_security_def manual_checks_def enabled_str_def
      path_def header_def nx_def pie_def canary_def)

theorem check_security_manual_witness:
  "fst (check_security
         (sample_env [([''readelf'', ''-l'', ''/bin/ls''], Inr ''GNU_STACK RW''),
                      ([''readelf'', ''-h'', ''/bin/ls''], Inr ''EXEC (Executable file)''),
                      ([''nm'', ''/bin/ls''], Inr ''U __stack_chk_fail'')])
         (PStr ''/bin/ls''))
     = Inr (''=== Security Features: ls ==='' @ NL @ NL
            @ ''NX (No Execute): Enabled'' @ NL
            @ ''PIE: Disabled'' @ NL
            @ ''Stack Canary: Enabled'')
   \<and> fst (check_security (sample_env []) (PStr ''/bin/ls''))
     = Inr (''=== Security Features: ls ==='' @ NL @ NL @ install_note)"
proof -
  let ?tbl = "[([''readelf'', ''-l'', ''/bin/ls''], Inr ''GNU_STACK RW''),
               ([''readelf'', ''-h'', ''/bin/ls''], Inr ''EXEC (Executable file)''),
               ([''nm'', ''/bin/ls''], Inr ''U __stack_chk_fail'')]"
  have probes: "fst (check_security (sample_env ?tbl) (PStr ''/bin/ls''))
     = Inr (''=== Security Features: ls ==='' @ NL @ NL
            @ ''NX (No Execute): Enabled'' @ NL
            @ ''PIE: Disabled'' @ NL
            @ ''Stack Canary: Enabled'')"
    using check_security_manual [of "sample_env ?tbl" "''/bin/ls''"
        "''[Errno 2] No such file or directory: '' @ SQ @ ''checksec'' @ SQ"
        "''GNU_STACK RW''" "''EXEC (Executable file)''" "''U __stack_chk_fail''"]
    by (simp add: bin_ls_str bin_ls_name table_output_def not_installed_def sublist_code)
  have absent: "fst (check_security (sample_env []) (PStr ''/bin/ls''))
     = Inr (''=== Security Features: ls ==='' @ NL @ NL @ install_note)"
    using check_security_manual [of "sample_env []" "''/bin/ls''"
        "''[Errno 2] No such file or directory: '' @ SQ @ ''checksec'' @ SQ"
        _ _ _ "not_installed [''readelf'', ''-l'', ''/bin/ls'']"]
    by (simp add: bin_ls_str bin_ls_name table_output_def not_installed_def)
  from probes absent show ?thesis by simp
qed

text \<open>
  C10.  On an existing file, when \<^verbatim>\<open>checksec\<close> is present and exits with a nonzero
  status, \<^verbatim>\<open>check_security\<close> lets the \<^verbatim>\<open>CalledProcessError\<close> escape: \<^verbatim>\<open>checksec\<close> is
  the only command run, no manual probe follows and no installation note is returned;
  the caller receives "Error executing check_security: " and the text of the error.
\<close>

theorem checksec_failure_escapes:
  assumes ex: "path_exists env (path_str (parse_path p)) = Inr True"
    and checksec: "check_output env [''checksec'', ''--file='' @ path_str (parse_path p)]
                     = Inl (CalledProcessError m)"
    and arg: "arguments ''file_path'' = Some (PStr p)"
  shows "check_security env (PStr p)
           = (Inl (CalledProcessError m), [[''checksec'', ''--file='' @ path_str (parse_path p)]])
       \<and> call_tool env ''check_security'' arguments
           = (Inr [mk_text (''Error executing check_security: '' @ m)],
              [[''checksec'', ''--file='' @ path_str (parse_path p)]])"
  using assms
  by (simp add: check_security_def call_tool_cases call_tool_try_def getitem_def)

theorem checksec_failure_escapes_witness:
  "call_tool
     (sample_env [([''checksec'', ''--file=/bin/ls''], Inl (exit_status_1 [''checksec'', ''--file=/bin/ls'']))])
     ''check_security'' [''file_path'' \<mapsto> PStr ''/bin/ls'']
   = (Inr [mk_text
        (''Error executing check_security: Command '' @ SQ @ ''['' @ SQ @ ''checksec'' @ SQ @ '', ''
          @ SQ @ ''--file=/bin/ls'' @ SQ @ '']'' @ SQ @ '' returned non-zero exit status 1.'')],
      [[''checksec'', ''--file=/bin/ls'']])"
  using checksec_failure_escapes
    [of "sample_env [([''checksec'', ''--file=/bin/ls''], Inl (exit_status_1 [''checksec'', ''--file=/bin/ls'']))]"
        "''/bin/ls''"
        "''Command '' @ SQ @ repr_list [''checksec'', ''--file=/bin/ls''] @ SQ
           @ '' returned non-zero exit status 1.''"
        "[''file_path'' \<mapsto> PStr ''/bin/ls'']"]
  by (simp add: bin_ls_str table_output_def exit_status_1_def repr_list_def)

section \<open>String extraction and file information\<close>

text \<open>
  C7.  Dispatching extract_strings with an argument dictionary that has no
  \<^verbatim>\<open>min_length\<close> gives the same outcome as dispatching it with \<^verbatim>\<open>min_length\<close> set
  to 4: the dispatcher passes 4 to the handler when the key is absent.
\<close>

theorem default_min_length:
  assumes "arguments ''min_length'' = None"
  shows "call_tool env ''extract_strings'' arguments
           = call_tool env ''extract_strings'' (arguments(''min_length'' \<mapsto> PInt 4))
       \<and> call_tool_try env ''extract_strings'' arguments
           = (case getitem arguments ''file_path'' of
                Inl e \<Rightarrow> (Inl e, [])
              | Inr file_path \<Rightarrow> extract_strings env file_path (PInt 4))"
  using assms
  by (simp add: call_tool_def call_tool_try_def get_default_def getitem_def)

theorem default_min_length_witness:
  "[''file_path'' \<mapsto> PStr ''/bin/ls''] ''min_length'' = None
   \<and> call_tool (sample_env [([''strings'', ''-n'', ''4'', ''/bin/ls''], Inr (''GLIBC_2.4'' @ NL))])
         ''extract_strings'' [''file_path'' \<mapsto> PStr ''/bin/ls'']
     = call_tool (sample_env [([''strings'', ''-n'', ''4'', ''/bin/ls''], Inr (''GLIBC_2.4'' @ NL))])
         ''extract_strings'' [''file_path'' \<mapsto> PStr ''/bin/ls'', ''min_length'' \<mapsto> PInt 4]"
  using default_min_length
    [of "[''file_path'' \<mapsto> PStr ''/bin/ls'']"
        "sample_env [([''strings'', ''-n'', ''4'', ''/bin/ls''], Inr (''GLIBC_2.4'' @ NL))]"]
  by simp

text \<open>
  C8.  \<^verbatim>\<open>get_file_info\<close> depends on the outside world only through the existence of
  the path and the outcome of \<^verbatim>\<open>file -b\<close> on it: two invocations on the same path that
  see the same existence and the same probe outcome return the same text.
\<close>

theorem get_file_info_deterministic:
  assumes "path_exists env1 (path_str (parse_path p)) = path_exists env2 (path_str (parse_path p))"
    and "check_output env1 [''file'', ''-b'', path_str (parse_path p)]
           = check_output env2 [''file'', ''-b'', path_str (parse_path p)]"
  shows "get_file_info env1 (PStr p) = get_file_info env2 (PStr p)"
  using assms by (simp add: get_file_info_def split: sum.splits)

theorem get_file_info_deterministic_witness:
  "get_file_info (sample_env [([''file'', ''-b'', ''/bin/ls''], Inr (''ELF 64-bit LSB pie executable'' @ NL))])
     (PStr ''/bin/ls'')
   = get_file_info (sample_env [([''nm'', ''/bin/ls''], Inr []),
                                ([''file'', ''-b'', ''/bin/ls''], Inr (''ELF 64-bit LSB pie executable'' @ NL))])
     (PStr ''/bin/ls'')"
  using get_file_info_deterministic
    [of "sample_env [([''file'', ''-b'', ''/bin/ls''], Inr (''ELF 64-bit LSB pie executable'' @ NL))]"
        "''/bin/ls''"
        "sample_env [([''nm'', ''/bin/ls''], Inr []),
                     ([''file'', ''-b'', ''/bin/ls''], Inr (''ELF 64-bit LSB pie executable'' @ NL))]"]
  by (simp add: bin_ls_str table_output_def)

section \<open>File analysis\<close>

text \<open>
  C9.  On an existing file, when the \<^verbatim>\<open>file\<close> probe of \<^verbatim>\<open>analyze_binary\<close> raises
  (the executable is absent, or it exits with a nonzero status), the handler raises:
  the exception of \<^verbatim>\<open>path.stat()\<close> if that failed before the probe, otherwise
  \<^verbatim>\<open>UnboundLocalError\<close> for \<^verbatim>\<open>file_output\<close> after a \<^verbatim>\<open>CalledProcessError\<close>, and the
  probe's own exception in every other case.  The handler returns no summary, and the
  caller receives the one block "Error executing analyze_binary: " and the text of the
  exception.
\<close>

theorem analyze_binary_probe_failure:
  assumes ex: "path_exists env (path_str (parse_path p)) = Inr True"
    and probe: "check_output env [''file'', path_str (parse_path p)] = Inl e"
    and arg: "arguments ''file_path'' = Some (PStr p)"
  shows "\<exists>e'. e' = (case path_stat env (path_str (parse_path p)) of
                      Inl e0 \<Rightarrow> e0
                    | Inr stat \<Rightarrow> if isCalledProcessError e then unbound_file_output else e)
            \<and> fst (analyze_binary env (PStr p)) = Inl e'
            \<and> fst (call_tool env ''analyze_binary'' arguments)
                 = Inr [mk_text (''Error executing analyze_binary: '' @ str_exc e')]"
proof (cases "path_stat env (path_str (parse_path p))")
  case (Inl e0)
  then show ?thesis using ex arg
    by (simp add: analyze_binary_def call_tool_cases call_tool_try_def getitem_def)
next
  case (Inr st)
  then show ?thesis using ex arg probe
    by (simp add: analyze_binary_def call_tool_cases call_tool_try_def getitem_def)
qed

theorem analyze_binary_probe_failure_witness:
  "fst (analyze_binary
         (sample_env [([''file'', ''/bin/ls''], Inl (exit_status_1 [''file'', ''/bin/ls'']))])
         (PStr ''/bin/ls''))
     = Inl unbound_file_output
   \<and> fst (call_tool
         (sample_env [([''file'', ''/bin/ls''], Inl (exit_status_1 [''file'', ''/bin/ls'']))])
         ''analyze_binary'' [''file_path'' \<mapsto> PStr ''/bin/ls''])
     = Inr [mk_text
         (''Error executing analyze_binary: cannot access local variable '' @ SQ @ ''file_output'' @ SQ
            @ '' where it is not associated with a value'')]"
  using analyze_binary_probe_failure
    [of "sample_env [([''file'', ''/bin/ls''], Inl (exit_status_1 [''file'', ''/bin/ls'']))]"
        "''/bin/ls''" "exit_status_1 [''file'', ''/bin/ls'']" "[''file_path'' \<mapsto> PStr ''/bin/ls'']"]
  by (simp add: bin_ls_str table_output_def exit_status_1_def unbound_file_output_def)

end
